theory Spec2Isabelle
  imports Complex_Main "HOL-Library.Word"
begin

unbundle bit_operations_syntax

section \<open>Exceptions as values\<close>

text \<open>
  Every exception the Python source can raise is a constructor of \<open>error\<close>; the ones whose
  message the source builds itself carry that message. A computation that may raise has the
  type \<open>error + 'a\<close>, with \<open>Inl\<close> for the raised exception.
\<close>

datatype error =
    ValueError string
  | IndexError string
  | TypeError string
  | RuntimeError string
  | AttributeError string
  | ZeroDivisionError
  | OverflowError
  | FileNotFoundError string
  | FileExistsError string
  | IsADirectoryError string
  | UnidentifiedImageError string

definition bind_err :: "error + 'a \<Rightarrow> ('a \<Rightarrow> error + 'b) \<Rightarrow> error + 'b" where
  "bind_err m f = (case m of Inl e \<Rightarrow> Inl e | Inr x \<Rightarrow> f x)"

section \<open>Python built-ins\<close>

text \<open>
  \<open>str(n)\<close> of a non-negative integer, as the f-strings of the source render tensor sizes
  and batch positions.
\<close>

fun str_nat :: "nat \<Rightarrow> string" where
  "str_nat n =
     (if n < 10 then [''0123456789'' ! n]
      else str_nat (n div 10) @ [''0123456789'' ! (n mod 10)])"

text \<open>
  \<open>str.upper()\<close> and \<open>str.replace(old, new)\<close> for one-character \<open>old\<close> and \<open>new\<close>.
  A HOL character is one byte, so the model's strings are ASCII strings: \<open>upper\<close> maps the
  letters a to z and leaves every other character as it is.
\<close>

definition upper_char :: "char \<Rightarrow> char" where
  "upper_char c =
     (case map_of (zip ''abcdefghijklmnopqrstuvwxyz'' ''ABCDEFGHIJKLMNOPQRSTUVWXYZ'') c of
        Some u \<Rightarrow> u
      | None \<Rightarrow> c)"

definition upper :: "string \<Rightarrow> string" where
  "upper s = map upper_char s"

definition replace :: "char \<Rightarrow> char \<Rightarrow> string \<Rightarrow> string" where
  "replace old new s = map (\<lambda>c. if c = old then new else c) s"

text \<open>\<open>str.rfind(c)\<close>: the last position of \<open>c\<close>, or -1.\<close>

definition rfind :: "char \<Rightarrow> string \<Rightarrow> int" where
  "rfind c s =
     (if c \<in> set s then int (length s) - 1 - int (length (takeWhile (\<lambda>x. x \<noteq> c) (rev s)))
      else - 1)"

definition rstrip :: "char \<Rightarrow> string \<Rightarrow> string" where
  "rstrip c s = rev (dropWhile (\<lambda>x. x = c) (rev s))"

fun split_sep :: "char \<Rightarrow> string \<Rightarrow> string list" where
  "split_sep c [] = [[]]"
| "split_sep c (x # xs) =
     (if x = c then [] # split_sep c xs
      else (case split_sep c xs of [] \<Rightarrow> [[x]] | y # ys \<Rightarrow> (x # y) # ys))"

fun join_sep :: "string \<Rightarrow> string list \<Rightarrow> string" where
  "join_sep s [] = []"
| "join_sep s [x] = x"
| "join_sep s (x # y # ys) = x @ s @ join_sep s (y # ys)"

section \<open>Floating point\<close>

text \<open>
  A finite binary floating-point number is a rational. \<open>float_round p emin x\<close> rounds the
  exact value \<open>x\<close> to the nearest number with a \<open>p\<close>-bit significand and an exponent of
  at least \<open>emin\<close> (below it the numbers are subnormal), ties to the even significand, as
  IEEE 754 arithmetic rounds every result: \<open>p = 53\<close>, \<open>emin = -1022\<close> for Python's
  \<open>float\<close> and \<open>p = 24\<close>, \<open>emin = -126\<close> for \<open>float32\<close>.
\<close>

fun bit_length :: "nat \<Rightarrow> nat" where
  "bit_length n = (if n = 0 then 0 else Suc (bit_length (n div 2)))"

definition ilog2 :: "rat \<Rightarrow> int" where
  "ilog2 x =
     (let (a, b) = quotient_of \<bar>x\<bar>;
          d = int (bit_length (nat a)) - int (bit_length (nat b))
      in if 2 powi d \<le> \<bar>x\<bar> then d else d - 1)"

definition round_half_even :: "rat \<Rightarrow> int" where
  "round_half_even x =
     (let f = \<lfloor>x\<rfloor>; d = x - of_int f
      in if d < 1 / 2 then f else if 1 / 2 < d then f + 1 else if even f then f else f + 1)"

definition float_round :: "nat \<Rightarrow> int \<Rightarrow> rat \<Rightarrow> rat" where
  "float_round p emin x =
     (if x = 0 then 0
      else let e = max (ilog2 x) emin; ulp = 2 powi (e - (int p - 1))
           in of_int (round_half_even (x / ulp)) * ulp)"

text \<open>
  A Python \<open>float\<close>: a finite double, an infinity or NaN. The two zeros are one value
  here; no operation of the source tells them apart.
\<close>

datatype pyfloat = Finite rat | PosInf | NegInf | NaN

definition float_of_rat :: "rat \<Rightarrow> pyfloat" where
  "float_of_rat x =
     (let q = float_round 53 (- 1022) x
      in if 2 ^ 1024 \<le> q then PosInf else if q \<le> - (2 ^ 1024) then NegInf else Finite q)"

fun float_mul :: "pyfloat \<Rightarrow> pyfloat \<Rightarrow> pyfloat" where
  "float_mul (Finite a) (Finite b) = float_of_rat (a * b)"
| "float_mul (Finite a) PosInf = (if a = 0 then NaN else if 0 < a then PosInf else NegInf)"
| "float_mul (Finite a) NegInf = (if a = 0 then NaN else if 0 < a then NegInf else PosInf)"
| "float_mul PosInf (Finite b) = (if b = 0 then NaN else if 0 < b then PosInf else NegInf)"
| "float_mul NegInf (Finite b) = (if b = 0 then NaN else if 0 < b then NegInf else PosInf)"
| "float_mul PosInf PosInf = PosInf"
| "float_mul PosInf NegInf = NegInf"
| "float_mul NegInf PosInf = NegInf"
| "float_mul NegInf NegInf = PosInf"
| "float_mul NaN _ = NaN"
| "float_mul _ NaN = NaN"

text \<open>\<open>float(i)\<close> as \<open>int * float\<close> converts its left operand.\<close>

definition int_to_float :: "int \<Rightarrow> error + pyfloat" where
  "int_to_float i =
     (case float_of_rat (of_int i) of
        Finite q \<Rightarrow> Inr (Finite q)
      | _ \<Rightarrow> Inl OverflowError)"

text \<open>\<open>i * x\<close> for an \<open>int\<close> \<open>i\<close> and a \<open>float\<close> \<open>x\<close>.\<close>

definition int_mul_float :: "int \<Rightarrow> pyfloat \<Rightarrow> error + pyfloat" where
  "int_mul_float i x = bind_err (int_to_float i) (\<lambda>y. Inr (float_mul y x))"

text \<open>\<open>a / b\<close> for two \<open>int\<close>s: the correctly rounded quotient.\<close>

definition py_truediv :: "int \<Rightarrow> int \<Rightarrow> error + pyfloat" where
  "py_truediv a b =
     (if b = 0 then Inl ZeroDivisionError
      else (case float_of_rat (of_int a / of_int b) of
              Finite q \<Rightarrow> Inr (Finite q)
            | _ \<Rightarrow> Inl OverflowError))"

text \<open>\<open>round(x)\<close> of a \<open>float\<close>: the nearest \<open>int\<close>, ties to the even one.\<close>

fun py_round :: "pyfloat \<Rightarrow> error + int" where
  "py_round (Finite x) = Inr (round_half_even x)"
| "py_round NaN = Inl (ValueError ''cannot convert float NaN to integer'')"
| "py_round _ = Inl OverflowError"

text \<open>
  \<open>float32\<close> arithmetic on finite values: the division of \<open>load_image\<close> and the
  subtraction that inverts the mask. Neither can overflow on the values they meet.
\<close>

definition float32 :: "rat \<Rightarrow> rat" where
  "float32 x = float_round 24 (- 126) x"

definition float32_div :: "rat \<Rightarrow> rat \<Rightarrow> rat" where
  "float32_div x y = float32 (x / y)"

definition float32_sub :: "rat \<Rightarrow> rat \<Rightarrow> rat" where
  "float32_sub x y = float32 (x - y)"

section \<open>Tensors\<close>

text \<open>
  A \<open>torch.Tensor\<close> is a strided view of a flat storage: every axis has a size and a
  stride, and the element at index \<open>[i\<^sub>0, ..., i\<^sub>k]\<close> is the storage cell at
  \<open>offset + i\<^sub>0 * stride\<^sub>0 + ... + i\<^sub>k * stride\<^sub>k\<close>. \<open>permute\<close>, indexing and slicing
  return views of the same storage; elementwise arithmetic returns a fresh contiguous tensor.
\<close>

record 'a tensor =
  dims :: "(nat \<times> nat) list"
  offset :: nat
  storage :: "'a list"

definition shape :: "'a tensor \<Rightarrow> nat list" where
  "shape t = map fst (dims t)"

fun flat_index :: "(nat \<times> nat) list \<Rightarrow> nat list \<Rightarrow> nat" where
  "flat_index ((n, s) # ds) (i # idx) = i * s + flat_index ds idx"
| "flat_index _ _ = 0"

definition valid_index :: "nat list \<Rightarrow> nat list \<Rightarrow> bool" where
  "valid_index sh idx = list_all2 (\<lambda>i n. i < n) idx sh"

definition tensor_at :: "'a tensor \<Rightarrow> nat list \<Rightarrow> 'a" where
  "tensor_at t idx = storage t ! (offset t + flat_index (dims t) idx)"

text \<open>
  \<open>Tensor.permute(*dims)\<close>: axis \<open>k\<close> of the result is axis \<open>dims[k]\<close> of the argument.
  torch raises a RuntimeError unless \<open>dims\<close> is a permutation of the argument's axes.
\<close>

definition permute :: "nat list \<Rightarrow> 'a tensor \<Rightarrow> error + 'a tensor" where
  "permute ds t =
     (if length ds \<noteq> length (dims t) then
        Inl (RuntimeError ''permute: number of dims does not match'')
      else if \<not> distinct ds \<or> (\<exists>d \<in> set ds. length (dims t) \<le> d) then
        Inl (RuntimeError ''permute: invalid dims'')
      else Inr (t\<lparr>dims := map (\<lambda>d. dims t ! d) ds\<rparr>))"

text \<open>\<open>t.shape[k]\<close>: \<open>shape\<close> is a tuple, and indexing it out of range raises.\<close>

definition shape_at :: "'a tensor \<Rightarrow> nat \<Rightarrow> error + nat" where
  "shape_at t k =
     (if k < length (shape t) then Inr (shape t ! k)
      else Inl (IndexError ''tuple index out of range''))"

text \<open>
  Indexing \<open>t[i\<^sub>0, i\<^sub>1, ...]\<close> with integers, full slices \<open>:\<close> and slices \<open>a:b\<close>. An integer
  drops its axis, a slice keeps it; a slice's bounds are clamped to the axis, an integer
  out of range raises. Axes beyond the last index are kept whole.
\<close>

datatype index = At nat | All | Range nat nat

fun getitem_dims :: "index list \<Rightarrow> (nat \<times> nat) list \<Rightarrow> error + nat \<times> (nat \<times> nat) list" where
  "getitem_dims [] ds = Inr (0, ds)"
| "getitem_dims (ix # ixs) [] = Inl (IndexError ''too many indices for tensor'')"
| "getitem_dims (At i # ixs) ((n, s) # ds) =
     (if n \<le> i then Inl (IndexError ''index out of range'')
      else bind_err (getitem_dims ixs ds) (\<lambda>(off, ds'). Inr (i * s + off, ds')))"
| "getitem_dims (All # ixs) ((n, s) # ds) =
     bind_err (getitem_dims ixs ds) (\<lambda>(off, ds'). Inr (off, (n, s) # ds'))"
| "getitem_dims (Range a b # ixs) ((n, s) # ds) =
     (let lo = min a n; hi = max lo (min b n)
      in bind_err (getitem_dims ixs ds) (\<lambda>(off, ds'). Inr (lo * s + off, (hi - lo, s) # ds')))"

definition getitem :: "index list \<Rightarrow> 'a tensor \<Rightarrow> error + 'a tensor" where
  "getitem ixs t =
     bind_err (getitem_dims ixs (dims t))
       (\<lambda>(off, ds'). Inr (t\<lparr>dims := ds', offset := offset t + off\<rparr>))"

text \<open>\<open>t.unsqueeze(0)\<close>: a new leading axis of size 1.\<close>

definition unsqueeze0 :: "'a tensor \<Rightarrow> 'a tensor" where
  "unsqueeze0 t =
     t\<lparr>dims := (1, case dims t of [] \<Rightarrow> 1 | (n, s) # _ \<Rightarrow> n * s) # dims t\<rparr>"

text \<open>
  Iterating over a tensor yields \<open>t[0], t[1], ...\<close> along its first axis; a tensor with no
  axis cannot be iterated.
\<close>

definition unbind :: "'a tensor \<Rightarrow> error + 'a tensor list" where
  "unbind t =
     (case dims t of
        [] \<Rightarrow> Inl (TypeError ''iteration over a 0-d tensor'')
      | (n, s) # ds \<Rightarrow>
          Inr (map (\<lambda>i. t\<lparr>dims := ds, offset := offset t + i * s\<rparr>) [0..<n]))"

text \<open>
  Elementwise operations read the elements of a view in row-major order of its indices
  and return a new contiguous tensor of the same shape.
\<close>

fun offsets :: "(nat \<times> nat) list \<Rightarrow> nat list" where
  "offsets [] = [0]"
| "offsets ((n, s) # ds) = concat (map (\<lambda>i. map (\<lambda>k. i * s + k) (offsets ds)) [0..<n])"

definition to_list :: "'a tensor \<Rightarrow> 'a list" where
  "to_list t = map (\<lambda>k. storage t ! (offset t + k)) (offsets (dims t))"

fun contiguous_dims :: "nat list \<Rightarrow> (nat \<times> nat) list" where
  "contiguous_dims [] = []"
| "contiguous_dims (n # ns) = (n, prod_list ns) # contiguous_dims ns"

definition map_tensor :: "('a \<Rightarrow> 'b) \<Rightarrow> 'a tensor \<Rightarrow> 'b tensor" where
  "map_tensor f t =
     \<lparr>dims = contiguous_dims (shape t), offset = 0, storage = map f (to_list t)\<rparr>"

text \<open>\<open>t.clamp(lo, hi)\<close>.\<close>

definition clamp :: "'a::linorder \<Rightarrow> 'a \<Rightarrow> 'a tensor \<Rightarrow> 'a tensor" where
  "clamp lo hi t = map_tensor (\<lambda>x. min (max x lo) hi) t"

section \<open>Format converter\<close>

definition comfyui_to_native_torch :: "'a tensor \<Rightarrow> error + 'a tensor" where
  "comfyui_to_native_torch imgs = permute [0, 3, 1, 2] imgs"

definition native_torch_to_comfyui :: "'a tensor \<Rightarrow> error + 'a tensor" where
  "native_torch_to_comfyui imgs = permute [0, 2, 3, 1] imgs"

section \<open>Interpolation kernels and the resize primitive\<close>

text \<open>
  Modelled from the spec: \<open>InterpolationMode\<close> is an enumeration of torchvision, imported
  by the source and not defined in it. The spec gives its members: the closed enumeration
  bicubic, bilinear, nearest, nearest-exact. \<open>getattr(InterpolationMode, name)\<close> returns
  the member of that name and raises AttributeError when there is none.
\<close>

datatype InterpolationMode = NEAREST | NEAREST_EXACT | BILINEAR | BICUBIC

definition getattr_InterpolationMode :: "string \<Rightarrow> error + InterpolationMode" where
  "getattr_InterpolationMode name =
     (case map_of [(''NEAREST'', NEAREST), (''NEAREST_EXACT'', NEAREST_EXACT),
                   (''BILINEAR'', BILINEAR), (''BICUBIC'', BICUBIC)] name of
        Some m \<Rightarrow> Inr m
      | None \<Rightarrow> Inl (AttributeError name))"

text \<open>
  \<open>torchvision.transforms.Resize(size, interpolation=..., antialias=...)\<close>: the transform
  object the nodes build. Its \<open>size\<close> is a pair \<open>(h, w)\<close> or one integer, the length the
  shorter side is scaled to. Applying the transform is torchvision's work: the nodes take
  it as the parameter \<open>forward\<close>.
\<close>

datatype resize_size = Both int int | Shorter int

record Resize =
  size_arg :: resize_size
  interpolation :: InterpolationMode
  antialias :: bool

section \<open>Paths\<close>

text \<open>
  \<open>pathlib.Path\<close> on a POSIX system: an anchor (the root: empty, \<open>/\<close> or \<open>//\<close>) and the path's
  components. Parsing a string drops empty components and \<open>.\<close> components.
\<close>

record pure_path =
  anchor :: string
  parts :: "string list"

definition Path :: "string \<Rightarrow> pure_path" where
  "Path s =
     (let rel = dropWhile (\<lambda>c. c = CHR ''/'') s;
          k = length s - length rel
      in \<lparr>anchor = (if k = 0 then [] else if k = 2 then ''//'' else ''/''),
          parts = filter (\<lambda>x. x \<noteq> [] \<and> x \<noteq> ''.'') (split_sep CHR ''/'' rel)\<rparr>)"

definition str_path :: "pure_path \<Rightarrow> string" where
  "str_path p =
     (if anchor p = [] \<and> parts p = [] then ''.''
      else anchor p @ join_sep ''/'' (parts p))"

definition name :: "pure_path \<Rightarrow> string" where
  "name p = (if parts p = [] then [] else last (parts p))"

definition suffix :: "pure_path \<Rightarrow> string" where
  "suffix p =
     (let i = rfind CHR ''.'' (name p)
      in if 0 < i \<and> i < int (length (name p)) - 1 then drop (nat i) (name p) else [])"

definition stem :: "pure_path \<Rightarrow> string" where
  "stem p =
     (let i = rfind CHR ''.'' (name p)
      in if 0 < i \<and> i < int (length (name p)) - 1 then take (nat i) (name p) else name p)"

definition with_name :: "pure_path \<Rightarrow> string \<Rightarrow> error + pure_path" where
  "with_name p nm =
     (if name p = [] then Inl (ValueError (str_path p @ '' has an empty name''))
      else if nm = [] \<or> CHR ''/'' \<in> set nm \<or> nm = ''.'' then
        Inl (ValueError (''Invalid name '' @ nm))
      else Inr (p\<lparr>parts := butlast (parts p) @ [nm]\<rparr>))"

definition with_stem :: "pure_path \<Rightarrow> string \<Rightarrow> error + pure_path" where
  "with_stem p st = with_name p (st @ suffix p)"

definition parent :: "pure_path \<Rightarrow> pure_path" where
  "parent p = (if parts p = [] then p else p\<lparr>parts := butlast (parts p)\<rparr>)"

text \<open>\<open>os.path.split\<close>: the directory part and the last component of a path string.\<close>

definition os_path_split :: "string \<Rightarrow> string \<times> string" where
  "os_path_split p =
     (let i = nat (rfind CHR ''/'' p + 1);
          hd_part = take i p;
          tl_part = drop i p
      in (if hd_part \<noteq> [] \<and> hd_part \<noteq> replicate (length hd_part) CHR ''/''
          then rstrip CHR ''/'' hd_part else hd_part,
          tl_part))"

section \<open>The file system\<close>

text \<open>
  What a saved file holds: the clamped channel-first pixels handed to the encoder, the text
  chunks (a chunk \<open>(k, v)\<close> holds the text \<open>json.dumps(v)\<close> under the key \<open>k\<close>) and the
  compression level. The 8-bit encoding itself is the codec's.
\<close>

record ('a, 'j) png_file =
  pixels :: "'a tensor"
  pnginfo :: "(string \<times> 'j) list"
  compress_level :: nat

text \<open>
  The state the save node acts on: the directories and files that exist, by path string,
  and \<open>refuses\<close>, the exception the encoder or the operating system raises when asked to
  write a path (an extension that names no format, a destination that cannot be written),
  if it raises one.
\<close>

record ('a, 'j) filesystem =
  directories :: "string set"
  files :: "string \<rightharpoonup> ('a, 'j) png_file"
  refuses :: "string \<Rightarrow> error option"

definition is_dir :: "('a, 'j) filesystem \<Rightarrow> string \<Rightarrow> bool" where
  "is_dir fs s \<longleftrightarrow> s \<in> directories fs \<or> s = ''.'' \<or> s = ''/'' \<or> s = ''//''"

text \<open>
  \<open>p.mkdir(exist_ok=True)\<close>: nothing to do for a directory that exists; a file of that
  name, or a missing parent directory, is an error.
\<close>

definition mkdir_exist_ok ::
  "pure_path \<Rightarrow> ('a, 'j) filesystem \<Rightarrow> (error + unit) \<times> ('a, 'j) filesystem" where
  "mkdir_exist_ok p fs =
     (if is_dir fs (str_path p) then (Inr (), fs)
      else if files fs (str_path p) \<noteq> None then (Inl (FileExistsError (str_path p)), fs)
      else if \<not> is_dir fs (str_path (parent p)) then
        (Inl (FileNotFoundError (str_path p)), fs)
      else (Inr (), fs\<lparr>directories := insert (str_path p) (directories fs)\<rparr>))"

text \<open>\<open>img.save(path, pnginfo=metadata, compress_level=level)\<close>.\<close>

definition Image_save ::
  "'a tensor \<Rightarrow> string \<Rightarrow> (string \<times> 'j) list \<Rightarrow> nat \<Rightarrow> ('a, 'j) filesystem
     \<Rightarrow> (error + unit) \<times> ('a, 'j) filesystem" where
  "Image_save img path metadata level fs =
     (case refuses fs path of
        Some e \<Rightarrow> (Inl e, fs)
      | None \<Rightarrow>
          (Inr (),
           fs\<lparr>files := (files fs)
                 (path \<mapsto> \<lparr>pixels = img, pnginfo = metadata, compress_level = level\<rparr>)\<rparr>))"

section \<open>Loading and saving\<close>

text \<open>
  \<open>load_image\<close>. Decoding is the codec's work: \<open>decode path mode\<close> stands for
  \<open>np.array(Image.open(path).convert(mode))\<close>, an array of bytes of shape
  \<open>(H, W, channels)\<close>, or the exception raised for a path that cannot be read.
\<close>

definition load_image ::
  "(string \<Rightarrow> string \<Rightarrow> error + 8 word tensor) \<Rightarrow> string \<Rightarrow> string \<Rightarrow> error + rat tensor" where
  "load_image decode path convert =
     bind_err (decode path convert) (\<lambda>img.
       let img = map_tensor (\<lambda>b. float32_div (of_nat (unat b)) 255) img;
           img = unsqueeze0 img
       in Inr img)"

record save_result =
  filename :: string
  subfolder :: string
  type :: string

definition save_image ::
  "'a::{linorder, zero, one} tensor \<Rightarrow> pure_path \<Rightarrow> 'j option \<Rightarrow> (string \<times> 'j) list option
     \<Rightarrow> ('a, 'j) filesystem \<Rightarrow> (error + save_result) \<times> ('a, 'j) filesystem" where
  "save_image img path prompt extra_pnginfo fs =
     (let path = str_path path
      in if length (shape img) \<noteq> 3 then
           (case shape_at img 0 of
              Inl e \<Rightarrow> (Inl e, fs)
            | Inr n \<Rightarrow>
                (Inl (ValueError
                   (''can't take image batch as input, got '' @ str_nat n @ '' images'')), fs))
         else
           (case permute [2, 0, 1] img of
              Inl e \<Rightarrow> (Inl e, fs)
            | Inr img \<Rightarrow>
                (case shape_at img 0 of
                   Inl e \<Rightarrow> (Inl e, fs)
                 | Inr c \<Rightarrow>
                     if c \<noteq> 3 then
                       (Inl (ValueError
                          (''image must have 3 channels, but got '' @ str_nat c @ '' channels'')),
                        fs)
                     else
                       (let img = clamp 0 1 img;
                            metadata = [];
                            metadata = (case prompt of
                                          None \<Rightarrow> metadata
                                        | Some pr \<Rightarrow> metadata @ [(''prompt'', pr)]);
                            metadata = (case extra_pnginfo of
                                          None \<Rightarrow> metadata
                                        | Some kvs \<Rightarrow> metadata @ kvs)
                        in (case Image_save img path metadata 4 fs of
                              (Inl e, fs') \<Rightarrow> (Inl e, fs')
                            | (Inr _, fs') \<Rightarrow>
                                (let (sub, file) = os_path_split path
                                 in (Inr \<lparr>filename = file, subfolder = sub, type = ''output''\<rparr>,
                                     fs')))))))"

section \<open>The nodes\<close>

text \<open>
  Each node is the \<open>execute\<close> method of the class registered under the identifier that
  names the function here. The \<open>isinstance\<close> assertions of the source are the types of the
  arguments.
\<close>

definition JWImageLoadRGB_execute ::
  "(string \<Rightarrow> string \<Rightarrow> error + 8 word tensor) \<Rightarrow> string \<Rightarrow> error + rat tensor" where
  "JWImageLoadRGB_execute decode path =
     bind_err (load_image decode path ''RGB'') (\<lambda>img. Inr img)"

definition JWImageLoadRGBA_execute ::
  "(string \<Rightarrow> string \<Rightarrow> error + 8 word tensor) \<Rightarrow> string
     \<Rightarrow> error + rat tensor \<times> rat tensor" where
  "JWImageLoadRGBA_execute decode path =
     bind_err (load_image decode path ''RGBA'') (\<lambda>img.
     bind_err (getitem [All, All, All, Range 0 3] img) (\<lambda>color.
     bind_err (getitem [At 0, All, All, At 3] img) (\<lambda>mask_t.
       let mask_t = map_tensor (\<lambda>x. float32_sub 1 x) mask_t
       in Inr (color, mask_t))))"

text \<open>The loop of the save node over \<open>enumerate(image)\<close>.\<close>

fun save_batch ::
  "pure_path \<Rightarrow> 'j option \<Rightarrow> (string \<times> 'j) list option
     \<Rightarrow> (nat \<times> 'a::{linorder, zero, one} tensor) list
     \<Rightarrow> ('a, 'j) filesystem \<Rightarrow> (error + unit) \<times> ('a, 'j) filesystem" where
  "save_batch path prompt extra_pnginfo [] fs = (Inr (), fs)"
| "save_batch path prompt extra_pnginfo ((i, img) # rest) fs =
     (case with_stem path (stem path @ ''-'' @ str_nat i) of
        Inl e \<Rightarrow> (Inl e, fs)
      | Inr subpath \<Rightarrow>
          (case save_image img subpath prompt extra_pnginfo fs of
             (Inl e, fs') \<Rightarrow> (Inl e, fs')
           | (Inr _, fs') \<Rightarrow> save_batch path prompt extra_pnginfo rest fs'))"

definition JWImageSaveToPath_execute ::
  "string \<Rightarrow> 'a::{linorder, zero, one} tensor \<Rightarrow> 'j option \<Rightarrow> (string \<times> 'j) list option
     \<Rightarrow> ('a, 'j) filesystem \<Rightarrow> (error + unit) \<times> ('a, 'j) filesystem" where
  "JWImageSaveToPath_execute path images prompt extra_pnginfo fs =
     (let path = Path path
      in (case mkdir_exist_ok (parent path) fs of
            (Inl e, fs) \<Rightarrow> (Inl e, fs)
          | (Inr _, fs) \<Rightarrow>
              (case shape_at images 0 of
                 Inl e \<Rightarrow> (Inl e, fs)
               | Inr n \<Rightarrow>
                   if n = 1 then
                     (case getitem [At 0] images of
                        Inl e \<Rightarrow> (Inl e, fs)
                      | Inr img \<Rightarrow>
                          (case save_image img path prompt extra_pnginfo fs of
                             (Inl e, fs') \<Rightarrow> (Inl e, fs')
                           | (Inr _, fs') \<Rightarrow> (Inr (), fs')))
                   else
                     (case unbind images of
                        Inl e \<Rightarrow> (Inl e, fs)
                      | Inr imgs \<Rightarrow>
                          save_batch path prompt extra_pnginfo (enumerate 0 imgs) fs))))"

definition JWImageResize_execute ::
  "(Resize \<Rightarrow> 'a tensor \<Rightarrow> error + 'a tensor) \<Rightarrow> 'a tensor \<Rightarrow> int \<Rightarrow> int \<Rightarrow> string
     \<Rightarrow> error + 'a tensor" where
  "JWImageResize_execute forward images width height interpolation_mode =
     (let interpolation_mode = replace CHR '' '' CHR ''_'' (upper interpolation_mode)
      in bind_err (getattr_InterpolationMode interpolation_mode) (\<lambda>interpolation_mode.
           let resizer = \<lparr>size_arg = Both height width, interpolation = interpolation_mode,
                          antialias = True\<rparr>
           in bind_err (comfyui_to_native_torch images) (\<lambda>images.
              bind_err (forward resizer images) (\<lambda>images.
              bind_err (native_torch_to_comfyui images) (\<lambda>images. Inr images)))))"

definition JWMaskResize_execute ::
  "(Resize \<Rightarrow> 'a tensor \<Rightarrow> error + 'a tensor) \<Rightarrow> 'a tensor \<Rightarrow> int \<Rightarrow> int \<Rightarrow> string
     \<Rightarrow> error + 'a tensor" where
  "JWMaskResize_execute forward mask_t width height interpolation_mode =
     (let interpolation_mode = replace CHR '' '' CHR ''_'' (upper interpolation_mode)
      in bind_err (getattr_InterpolationMode interpolation_mode) (\<lambda>interpolation_mode.
           let resizer = \<lparr>size_arg = Both height width, interpolation = interpolation_mode,
                          antialias = True\<rparr>;
               mask_t = unsqueeze0 mask_t
           in bind_err (forward resizer mask_t) (\<lambda>mask_t.
              bind_err (getitem [At 0] mask_t) (\<lambda>mask_t. Inr mask_t))))"

definition JWImageResizeToSquare_execute ::
  "(Resize \<Rightarrow> 'a tensor \<Rightarrow> error + 'a tensor) \<Rightarrow> 'a tensor \<Rightarrow> int \<Rightarrow> string
     \<Rightarrow> error + 'a tensor" where
  "JWImageResizeToSquare_execute forward images sz interpolation_mode =
     (let interpolation_mode = replace CHR '' '' CHR ''_'' (upper interpolation_mode)
      in bind_err (getattr_InterpolationMode interpolation_mode) (\<lambda>interpolation_mode.
           let resizer = \<lparr>size_arg = Both sz sz, interpolation = interpolation_mode,
                          antialias = True\<rparr>
           in bind_err (comfyui_to_native_torch images) (\<lambda>images.
              bind_err (forward resizer images) (\<lambda>images.
              bind_err (native_torch_to_comfyui images) (\<lambda>images. Inr images)))))"

definition JWImageResizeByFactor_execute ::
  "(Resize \<Rightarrow> 'a tensor \<Rightarrow> error + 'a tensor) \<Rightarrow> 'a tensor \<Rightarrow> pyfloat \<Rightarrow> string
     \<Rightarrow> error + 'a tensor" where
  "JWImageResizeByFactor_execute forward images factor interpolation_mode =
     (let interpolation_mode = replace CHR '' '' CHR ''_'' (upper interpolation_mode)
      in bind_err (getattr_InterpolationMode interpolation_mode) (\<lambda>interpolation_mode.
         bind_err (shape_at images 1) (\<lambda>h.
         bind_err (int_mul_float (int h) factor) (\<lambda>x.
         bind_err (py_round x) (\<lambda>new_height.
         bind_err (shape_at images 2) (\<lambda>w.
         bind_err (int_mul_float (int w) factor) (\<lambda>y.
         bind_err (py_round y) (\<lambda>new_width.
           let resizer = \<lparr>size_arg = Both new_height new_width,
                          interpolation = interpolation_mode, antialias = True\<rparr>
           in bind_err (comfyui_to_native_torch images) (\<lambda>images.
              bind_err (forward resizer images) (\<lambda>images.
              bind_err (native_torch_to_comfyui images) (\<lambda>images. Inr images)))))))))))"

definition JWImageResizeByShorterSide_execute ::
  "(Resize \<Rightarrow> 'a tensor \<Rightarrow> error + 'a tensor) \<Rightarrow> 'a tensor \<Rightarrow> int \<Rightarrow> string
     \<Rightarrow> error + 'a tensor" where
  "JWImageResizeByShorterSide_execute forward images sz interpolation_mode =
     (let interpolation_mode = replace CHR '' '' CHR ''_'' (upper interpolation_mode)
      in bind_err (getattr_InterpolationMode interpolation_mode) (\<lambda>interpolation_mode.
           let resizer = \<lparr>size_arg = Shorter sz, interpolation = interpolation_mode,
                          antialias = True\<rparr>
           in bind_err (comfyui_to_native_torch images) (\<lambda>images.
              bind_err (forward resizer images) (\<lambda>images.
              bind_err (native_torch_to_comfyui images) (\<lambda>images. Inr images)))))"

text \<open>
  \<open>_, h, w, _ = image.shape\<close> unpacks exactly four sizes. The two computed lengths go to
  \<open>Resize\<close> as \<open>(new_w, new_h)\<close>.
\<close>

definition JWImageResizeByLongerSide_execute ::
  "(Resize \<Rightarrow> 'a tensor \<Rightarrow> error + 'a tensor) \<Rightarrow> 'a tensor \<Rightarrow> int \<Rightarrow> string
     \<Rightarrow> error + 'a tensor" where
  "JWImageResizeByLongerSide_execute forward images sz interpolation_mode =
     (let interpolation_mode = replace CHR '' '' CHR ''_'' (upper interpolation_mode)
      in bind_err (getattr_InterpolationMode interpolation_mode) (\<lambda>interpolation_mode.
         bind_err (case shape images of
                     [_, h, w, _] \<Rightarrow> Inr (h, w)
                   | sh \<Rightarrow>
                       if length sh < 4 then
                         Inl (ValueError (''not enough values to unpack (expected 4, got ''
                                @ str_nat (length sh) @ '')''))
                       else Inl (ValueError ''too many values to unpack (expected 4)''))
           (\<lambda>(h, w).
         bind_err (if w \<le> h then
                     (let new_h = sz
                      in bind_err (py_truediv (int w * new_h) (int h)) (\<lambda>q.
                         bind_err (py_round q) (\<lambda>new_w. Inr (new_h, new_w))))
                   else
                     (let new_w = sz
                      in bind_err (py_truediv (int h * new_w) (int w)) (\<lambda>q.
                         bind_err (py_round q) (\<lambda>new_h. Inr (new_h, new_w)))))
           (\<lambda>(new_h, new_w).
           let resizer = \<lparr>size_arg = Both new_w new_h, interpolation = interpolation_mode,
                          antialias = True\<rparr>
           in bind_err (comfyui_to_native_torch images) (\<lambda>images.
              bind_err (forward resizer images) (\<lambda>images.
              bind_err (native_torch_to_comfyui images) (\<lambda>images. Inr images)))))))"

declare str_nat.simps [simp del] bit_length.simps [simp del]

section \<open>The converters are inverse\<close>

lemma dims_length_4:
  assumes "length (ds :: 'b list) = 4"
  obtains a b c d where "ds = [a, b, c, d]"
proof -
  from assms obtain a r1 where 1: "ds = a # r1" "length r1 = 3"
    by (cases ds) auto
  then obtain b r2 where 2: "r1 = b # r2" "length r2 = 2"
    by (cases r1) auto
  then obtain c r3 where 3: "r2 = c # r3" "length r3 = 1"
    by (cases r2) auto
  then obtain d where 4: "r3 = [d]"
    by (cases r3) auto
  from 1 2 3 4 have "ds = [a, b, c, d]" by simp
  then show thesis by (rule that)
qed

lemma comfyui_to_native_torch_4d:
  assumes "dims t = [n, h, w, c]"
  shows "comfyui_to_native_torch t = Inr (t\<lparr>dims := [n, c, h, w]\<rparr>)"
  using assms by (simp add: comfyui_to_native_torch_def permute_def)

lemma native_torch_to_comfyui_4d:
  assumes "dims t = [n, c, h, w]"
  shows "native_torch_to_comfyui t = Inr (t\<lparr>dims := [n, h, w, c]\<rparr>)"
  using assms by (simp add: native_torch_to_comfyui_def permute_def)

lemma comfyui_to_native_torch_at:
  assumes "shape t = [N, H, W, C]" and "comfyui_to_native_torch t = Inr t'"
  shows "shape t' = [N, C, H, W]"
    and "tensor_at t' [n, c, h, w] = tensor_at t [n, h, w, c]"
proof -
  from assms(1) have "length (dims t) = 4" by (simp add: shape_def flip: length_map [of fst])
  then obtain a b c' d where ds: "dims t = [a, b, c', d]" by (rule dims_length_4)
  with assms(2) have t': "t' = t\<lparr>dims := [a, d, b, c']\<rparr>"
    by (simp add: comfyui_to_native_torch_4d)
  from ds assms(1) show "shape t' = [N, C, H, W]"
    by (simp add: t' shape_def)
  show "tensor_at t' [n, c, h, w] = tensor_at t [n, h, w, c]"
    by (cases a; cases b; cases c'; cases d) (simp add: t' ds tensor_at_def ac_simps)
qed

text \<open>
  C1. For every 4-dimensional tensor, converting NHWC to NCHW and back gives the tensor
  itself, with the same shape and the same values, and so does converting NCHW to NHWC and
  back: the two converters are inverse to each other. The fields of the result are those of
  the argument, so it has the same shape and the same element at every index.
\<close>

theorem converters_round_trip:
  assumes "length (shape t) = 4"
  shows "bind_err (comfyui_to_native_torch t) native_torch_to_comfyui = Inr t
       \<and> bind_err (native_torch_to_comfyui t) comfyui_to_native_torch = Inr t"
proof -
  from assms have "length (dims t) = 4" by (simp add: shape_def)
  then obtain n h w c where ds: "dims t = [n, h, w, c]" by (rule dims_length_4)
  have same: "t\<lparr>dims := [n, h, w, c]\<rparr> = t" using ds by simp
  show ?thesis
    using ds same
    by (simp add: bind_err_def comfyui_to_native_torch_4d native_torch_to_comfyui_4d)
qed

theorem converters_round_trip_witness:
  "length (shape \<lparr>dims = [(1, 12), (2, 6), (2, 3), (3, 1)], offset = 0,
                  storage = [0, 1, 2, 3, 4, 5, 6, 7, 8, 9, 10, 11 :: nat]\<rparr>) = 4
   \<and> bind_err (comfyui_to_native_torch
        \<lparr>dims = [(1, 12), (2, 6), (2, 3), (3, 1)], offset = 0,
         storage = [0, 1, 2, 3, 4, 5, 6, 7, 8, 9, 10, 11 :: nat]\<rparr>) native_torch_to_comfyui
     = Inr \<lparr>dims = [(1, 12), (2, 6), (2, 3), (3, 1)], offset = 0,
            storage = [0, 1, 2, 3, 4, 5, 6, 7, 8, 9, 10, 11 :: nat]\<rparr>
   \<and> bind_err (native_torch_to_comfyui
        \<lparr>dims = [(1, 12), (2, 6), (2, 3), (3, 1)], offset = 0,
         storage = [0, 1, 2, 3, 4, 5, 6, 7, 8, 9, 10, 11 :: nat]\<rparr>) comfyui_to_native_torch
     = Inr \<lparr>dims = [(1, 12), (2, 6), (2, 3), (3, 1)], offset = 0,
            storage = [0, 1, 2, 3, 4, 5, 6, 7, 8, 9, 10, 11 :: nat]\<rparr>"
  using converters_round_trip
    [of "\<lparr>dims = [(1, 12), (2, 6), (2, 3), (3, 1)], offset = 0,
          storage = [0, 1, 2, 3, 4, 5, 6, 7, 8, 9, 10, 11 :: nat]\<rparr>"]
  by (simp add: shape_def)

end
